theory Spec2Isabelle
  imports Complex_Main "HOL-Library.AList"
begin

section \<open>JavaScript values\<close>

text \<open>
  The dashboard is JavaScript: payloads of push events and bodies of REST responses are
  JSON values. Objects are association lists in insertion order; a property that is
  missing reads as \<open>Undefined\<close>. Numbers are the integers: the handlers below
  compare, test and print the numbers of a payload and never compute with them.
\<close>

datatype jsval =
    Undefined
  | Null
  | Bool bool
  | Num int
  | Str string
  | Arr "jsval list"
  | Obj "(string \<times> jsval) list"

type_synonym obj = "(string \<times> jsval) list"

text \<open>Truthiness, as \<open>if (v)\<close>, \<open>!v\<close>, \<open>a && b\<close> and \<open>a || b\<close> test it.\<close>

definition truthy :: "jsval \<Rightarrow> bool" where
  "truthy v =
     (case v of
        Undefined \<Rightarrow> False
      | Null \<Rightarrow> False
      | Bool b \<Rightarrow> b
      | Num n \<Rightarrow> n \<noteq> 0
      | Str s \<Rightarrow> s \<noteq> []
      | Arr _ \<Rightarrow> True
      | Obj _ \<Rightarrow> True)"

text \<open>\<open>a && b\<close>: the first operand when it is falsy, the second otherwise.\<close>

definition js_and :: "jsval \<Rightarrow> jsval \<Rightarrow> jsval" where
  "js_and a b = (if truthy a then b else a)"

text \<open>\<open>x.k\<close> on an object \<open>x\<close>.\<close>

definition js_get :: "obj \<Rightarrow> string \<Rightarrow> jsval" where
  "js_get x k = (case map_of x k of None \<Rightarrow> Undefined | Some v \<Rightarrow> v)"

text \<open>
  \<open>{...a, ...b}\<close>: the keys of \<open>a\<close> in their order, overwritten in place by
  \<open>b\<close>, then the new keys of \<open>b\<close>.
\<close>

definition spread :: "obj \<Rightarrow> obj \<Rightarrow> obj" where
  "spread a b = fold (\<lambda>kv. AList.update (fst kv) (snd kv)) b a"

text \<open>
  Strict equality \<open>a === b\<close> between a value of one payload and a value of another:
  primitives compare by value, two objects or arrays of different origin are never the
  same reference.
\<close>

definition is_primitive :: "jsval \<Rightarrow> bool" where
  "is_primitive v = (case v of Arr _ \<Rightarrow> False | Obj _ \<Rightarrow> False | _ \<Rightarrow> True)"

definition strict_eq :: "jsval \<Rightarrow> jsval \<Rightarrow> bool" where
  "strict_eq a b = (is_primitive a \<and> a = b)"

text \<open>
  \<open>a || b\<close> where \<open>a\<close> is a string that may be absent and \<open>b\<close> a string:
  the empty string is falsy.
\<close>

definition or_str :: "string option \<Rightarrow> string \<Rightarrow> string" where
  "or_str a b = (case a of None \<Rightarrow> b | Some s \<Rightarrow> if s \<noteq> [] then s else b)"

text \<open>
  Reading a property of \<open>null\<close> or \<open>undefined\<close> throws a TypeError; the message is
  the one of V8.
\<close>

definition cannot_read :: "jsval \<Rightarrow> string \<Rightarrow> string" where
  "cannot_read v k =
     ''Cannot read properties of '' @ (case v of Null \<Rightarrow> ''null'' | _ \<Rightarrow> ''undefined'')
       @ '' (reading '' @ [CHR 0x27] @ k @ [CHR 0x27] @ '')''"

section \<open>Backend Client: the response interceptors\<close>

text \<open>
  \<open>services/api.js\<close> and \<open>services/apiAuth.js\<close>. An axios error carries the
  transport message and, when the backend answered, the response: its status and the
  \<open>error\<close> text of its body (\<open>response.data?.error\<close>, absent when there is no body or
  the body has no such field).
\<close>

record http_response =
  status :: nat
  data_error :: "string option"

record axios_error =
  response :: "http_response option"
  message :: string

text \<open>
  What a call is rejected with: \<open>new Error(m)\<close>, and for the normalized error the
  \<open>status\<close> and \<open>originalError\<close> properties set on it.
\<close>

record api_error =
  err_message :: string
  err_status :: "nat option"
  originalError :: "axios_error option"

text \<open>
  What a \<open>catch\<close> can receive: an error of the Backend Client, a TypeError of the
  engine, or an axios error that did not pass through the interceptor.
\<close>

datatype thrown = Thrown api_error | TypeError string | AxiosError axios_error

definition new_Error :: "string \<Rightarrow> api_error" where
  "new_Error m = \<lparr>err_message = m, err_status = None, originalError = None\<rparr>"

definition thrown_message :: "thrown \<Rightarrow> string" where
  "thrown_message e =
     (case e of Thrown a \<Rightarrow> err_message a | TypeError m \<Rightarrow> m | AxiosError a \<Rightarrow> message a)"

text \<open>The browser: \<open>localStorage\<close> and the number of \<open>window.location.reload()\<close> calls.\<close>

record browser =
  localStorage :: "string \<rightharpoonup> string"
  reloads :: nat

definition TOKEN_KEY :: string where
  "TOKEN_KEY = ''dashboardToken''"

definition clearToken :: "browser \<Rightarrow> browser" where
  "clearToken b = b\<lparr>localStorage := (localStorage b)(TOKEN_KEY := None)\<rparr>"

definition reload :: "browser \<Rightarrow> browser" where
  "reload b = b\<lparr>reloads := Suc (reloads b)\<rparr>"

definition handleUnauthorized :: "browser \<Rightarrow> browser" where
  "handleUnauthorized b = reload (clearToken b)"

text \<open>\<open>error.response?.status\<close> and \<open>error.response?.data?.error\<close>.\<close>

definition response_status :: "axios_error \<Rightarrow> nat option" where
  "response_status e = map_option status (response e)"

definition response_data_error :: "axios_error \<Rightarrow> string option" where
  "response_data_error e = (case response e of None \<Rightarrow> None | Some r \<Rightarrow> data_error r)"

definition errorMessage :: "axios_error \<Rightarrow> string" where
  "errorMessage e =
     or_str (response_data_error e) (or_str (Some (message e)) ''Network error'')"

text \<open>
  The rejection handler of \<open>api.js\<close>: the browser afterwards and the error the call is
  rejected with.
\<close>

definition api_onRejected :: "axios_error \<Rightarrow> browser \<Rightarrow> browser \<times> api_error" where
  "api_onRejected e b =
     (if response_status e = Some 401
      then (reload (b\<lparr>localStorage := (localStorage b)(''dashboardToken'' := None)\<rparr>),
            new_Error ''Authentication required'')
      else (b, \<lparr>err_message = errorMessage e,
                err_status = response_status e,
                originalError = Some e\<rparr>))"

text \<open>The rejection handler of \<open>apiAuth.js\<close>.\<close>

definition apiAuth_onRejected :: "axios_error \<Rightarrow> browser \<Rightarrow> browser \<times> api_error" where
  "apiAuth_onRejected e b =
     (if response_status e = Some 401
      then (handleUnauthorized b, new_Error ''Authentication required'')
      else (b, \<lparr>err_message = errorMessage e,
                err_status = response_status e,
                originalError = Some e\<rparr>))"

section \<open>Backend Client: the kill switch\<close>

text \<open>
  \<open>api.setKillSwitch(enabled)\<close>. The second argument is how the POST settled: rejected
  by the interceptor, or fulfilled with the response body. (The optional \<open>reason\<close> of
  the source only goes into the body of the POST.)
\<close>

record kill_switch_result =
  ks_tradingEnabled :: bool
  ks_status :: jsval
  ks_message :: jsval

definition member :: "jsval \<Rightarrow> string \<Rightarrow> thrown + jsval" where
  "member v k =
     (case v of
        Undefined \<Rightarrow> Inl (TypeError (cannot_read v k))
      | Null \<Rightarrow> Inl (TypeError (cannot_read v k))
      | Obj x \<Rightarrow> Inr (js_get x k)
      | _ \<Rightarrow> Inr Undefined)"

definition setKillSwitch_failed :: "bool \<Rightarrow> thrown \<Rightarrow> thrown" where
  "setKillSwitch_failed enabled e =
     Thrown (new_Error (''Failed to '' @ (if enabled then ''enable'' else ''disable'')
                          @ '' trading: '' @ thrown_message e))"

definition setKillSwitch :: "bool \<Rightarrow> api_error + jsval \<Rightarrow> thrown + kill_switch_result" where
  "setKillSwitch enabled posted =
     (case posted of
        Inl e \<Rightarrow> Inl (setKillSwitch_failed enabled (Thrown e))
      | Inr resp \<Rightarrow>
          (case member resp ''status'' of
             Inl e \<Rightarrow> Inl (setKillSwitch_failed enabled e)
           | Inr st \<Rightarrow>
               Inr \<lparr>ks_tradingEnabled = enabled, ks_status = st, ks_message = st\<rparr>))"

section \<open>Text\<close>

text \<open>Decimal digits of a number, as template literals and \<open>JSON.stringify\<close> print it.\<close>

fun show_nat :: "nat \<Rightarrow> string" where
  "show_nat n =
     (if n < 10 then [''0123456789'' ! n]
      else show_nat (n div 10) @ [''0123456789'' ! (n mod 10)])"

declare show_nat.simps [simp del]

definition show_int :: "int \<Rightarrow> string" where
  "show_int i = (if i < 0 then ''-'' @ show_nat (nat (- i)) else show_nat (nat i))"

definition join_comma :: "string list \<Rightarrow> string" where
  "join_comma xs =
     (case xs of [] \<Rightarrow> [] | y # ys \<Rightarrow> foldl (\<lambda>acc t. acc @ '','' @ t) y ys)"

text \<open>
  \<open>JSON.stringify\<close>. A string is quoted with its quotes and backslashes escaped (the
  texts of the payloads hold no control characters); \<open>undefined\<close> has no serialization
  (\<open>None\<close>), is left out of an object and printed as \<open>null\<close> in an array.
\<close>

definition JSON_quote :: "string \<Rightarrow> string" where
  "JSON_quote s =
     [CHR 0x22]
       @ concat (map (\<lambda>c. if c = CHR 0x22 \<or> c = CHR 0x5C then [CHR 0x5C, c] else [c]) s)
       @ [CHR 0x22]"

primrec JSON_stringify :: "jsval \<Rightarrow> string option" where
  "JSON_stringify Undefined = None"
| "JSON_stringify Null = Some ''null''"
| "JSON_stringify (Bool b) = Some (if b then ''true'' else ''false'')"
| "JSON_stringify (Num n) = Some (show_int n)"
| "JSON_stringify (Str s) = Some (JSON_quote s)"
| "JSON_stringify (Arr xs) =
     Some (''['' @ join_comma (map (\<lambda>r. case r of None \<Rightarrow> ''null'' | Some t \<Rightarrow> t)
                                 (map JSON_stringify xs)) @ '']'')"
| "JSON_stringify (Obj kvs) =
     Some (''{'' @ join_comma
             (concat (map (\<lambda>kr. case snd kr of
                                  None \<Rightarrow> []
                                | Some t \<Rightarrow> [JSON_quote (fst kr) @ '':'' @ t])
                          (map (map_prod id JSON_stringify) kvs))) @ ''}'')"

text \<open>
  The string a value becomes in a template literal or as a computed property key.
\<close>

primrec js_toString :: "jsval \<Rightarrow> string" where
  "js_toString Undefined = ''undefined''"
| "js_toString Null = ''null''"
| "js_toString (Bool b) = (if b then ''true'' else ''false'')"
| "js_toString (Num n) = show_int n"
| "js_toString (Str s) = s"
| "js_toString (Arr xs) =
     join_comma (map (\<lambda>xt. if fst xt = Undefined \<or> fst xt = Null then [] else snd xt)
                     (zip xs (map js_toString xs)))"
| "js_toString (Obj kvs) = ''[object Object]''"

text \<open>\<open>a || b\<close> on values.\<close>

definition js_or :: "jsval \<Rightarrow> jsval \<Rightarrow> jsval" where
  "js_or a b = (if truthy a then a else b)"

text \<open>The emoji of the log texts, as their UTF-8 bytes.\<close>

definition emoji_green_circle :: string where
  "emoji_green_circle = [CHR 0xF0, CHR 0x9F, CHR 0x9F, CHR 0xA2]"

definition emoji_red_circle :: string where
  "emoji_red_circle = [CHR 0xF0, CHR 0x9F, CHR 0x94, CHR 0xB4]"

definition emoji_gear :: string where
  "emoji_gear = [CHR 0xE2, CHR 0x9A, CHR 0x99, CHR 0xEF, CHR 0xB8, CHR 0x8F]"

definition emoji_money_bag :: string where
  "emoji_money_bag = [CHR 0xF0, CHR 0x9F, CHR 0x92, CHR 0xB0]"

definition emoji_cross_mark :: string where
  "emoji_cross_mark = [CHR 0xE2, CHR 0x9D, CHR 0x8C]"

definition emoji_warning :: string where
  "emoji_warning = [CHR 0xE2, CHR 0x9A, CHR 0xA0, CHR 0xEF, CHR 0xB8, CHR 0x8F]"

section \<open>Backend Client: the snapshot calls\<close>

text \<open>
  \<open>api.getAccountOrders(accountId)\<close>: the orders of the dashboard snapshot that belong
  to the account. The argument is how \<open>GET /api/dashboard\<close> settled. The call resolves
  with an array.
\<close>

definition getAccountOrders :: "jsval \<Rightarrow> thrown + (obj list option) \<Rightarrow> thrown + obj list" where
  "getAccountOrders accountId got =
     (case got of
        Inl e \<Rightarrow> Inl e
      | Inr dashboard_orders \<Rightarrow>
          Inr (filter (\<lambda>order. strict_eq (js_get order ''accountId'') accountId)
                 (case dashboard_orders of None \<Rightarrow> [] | Some os \<Rightarrow> os)))"

text \<open>
  \<open>api.getCriticalStatus()\<close>. The arguments are the time and how the two GETs
  (\<open>/api/trading/active-status\<close>, then \<open>/api/services\<close>) settled. Spreading a value
  that is not iterable throws inside the \<open>try\<close> block.
\<close>

definition iterate :: "jsval \<Rightarrow> thrown + jsval list" where
  "iterate v =
     (case v of
        Arr xs \<Rightarrow> Inr xs
      | Str s \<Rightarrow> Inr (map (\<lambda>c. Str [c]) s)
      | _ \<Rightarrow> Inl (TypeError
                 ''Spread syntax requires ...iterable[Symbol.iterator] to be a function''))"

definition openOrders_of :: "obj \<Rightarrow> thrown + jsval list" where
  "openOrders_of tradingStatus =
     (case iterate (js_or (js_get tradingStatus ''pendingEntryOrders'') (Arr [])) of
        Inl e \<Rightarrow> Inl e
      | Inr pending \<Rightarrow>
          (case iterate (js_or (js_get tradingStatus ''stopOrders'') (Arr [])) of
             Inl e \<Rightarrow> Inl e
           | Inr stops \<Rightarrow>
               (case iterate (js_or (js_get tradingStatus ''targetOrders'') (Arr [])) of
                  Inl e \<Rightarrow> Inl e
                | Inr targets \<Rightarrow> Inr (pending @ stops @ targets))))"

definition getCriticalStatus_try :: "string \<Rightarrow> thrown + obj \<Rightarrow> thrown + obj list \<Rightarrow> thrown + obj" where
  "getCriticalStatus_try now activeStatus servicesGot =
     (case activeStatus of
        Inl e \<Rightarrow> Inl e
      | Inr tradingStatus \<Rightarrow>
          (case servicesGot of
             Inl e \<Rightarrow> Inl e
           | Inr services \<Rightarrow>
               (let downServices =
                      filter (\<lambda>s. js_get s ''status'' \<noteq> Str ''running'') services;
                    openPositions = js_or (js_get tradingStatus ''positions'') (Arr [])
                in case openOrders_of tradingStatus of
                     Inl e \<Rightarrow> Inl e
                   | Inr openOrders \<Rightarrow>
                       Inr [(''status'',
                               Str (if length downServices = 0 then ''healthy'' else ''critical'')),
                            (''issues'',
                               Arr (map (\<lambda>s. Str (js_toString (js_get s ''name'') @ '' is ''
                                                    @ js_toString (js_get s ''status'')))
                                        downServices)),
                            (''openPositions'', openPositions),
                            (''openOrders'', Arr openOrders),
                            (''lastUpdate'', js_or (js_get tradingStatus ''lastUpdate'') (Str now)),
                            (''services'', Arr (map Obj services)),
                            (''tradingEnabled'', js_get tradingStatus ''tradingEnabled''),
                            (''stats'', js_get tradingStatus ''stats'')])))"

definition getCriticalStatus_failed :: "string \<Rightarrow> obj" where
  "getCriticalStatus_failed now =
     [(''status'', Str ''error''),
      (''issues'', Arr [Str ''Failed to load trading data'']),
      (''openPositions'', Arr []),
      (''openOrders'', Arr []),
      (''lastUpdate'', Str now)]"

definition getCriticalStatus :: "string \<Rightarrow> thrown + obj \<Rightarrow> thrown + obj list \<Rightarrow> thrown + obj" where
  "getCriticalStatus now activeStatus servicesGot =
     (case getCriticalStatus_try now activeStatus servicesGot of
        Inl e \<Rightarrow> Inr (getCriticalStatus_failed now)
      | Inr st \<Rightarrow> Inr st)"

text \<open>\<open>api.setMarginSettings(marginSettings)\<close> resolves with its argument.\<close>

definition setMarginSettings :: "jsval \<Rightarrow> thrown + jsval" where
  "setMarginSettings marginSettings = Inr marginSettings"

section \<open>Objects read and written by computed keys\<close>

text \<open>
  The quotes state is an object whose keys come from the events, so what a key reads
  depends on the prototype too. An object here has its own properties and a prototype:
  \<open>Object.prototype\<close> (\<open>None\<close>) or a plain object, itself with prototype
  \<open>Object.prototype\<close>. The order of the list is the insertion order (the enumeration
  order of integer-like keys differs; nothing below depends on it).
\<close>

record quotes_object =
  own_properties :: obj
  prototype :: "obj option"

text \<open>
  What a read returns: a value, a built-in method of \<open>Object.prototype\<close>, or
  \<open>Object.prototype\<close> itself (the getter \<open>__proto__\<close> of an object that has it as
  prototype).
\<close>

datatype property_value = Data jsval | Builtin string | ObjectPrototype

definition Object_prototype_names :: "string list" where
  "Object_prototype_names =
     [''constructor'', ''__defineGetter__'', ''__defineSetter__'', ''hasOwnProperty'',
      ''__lookupGetter__'', ''__lookupSetter__'', ''isPrototypeOf'', ''propertyIsEnumerable'',
      ''toString'', ''valueOf'', ''toLocaleString'']"

definition inherited :: "string \<Rightarrow> property_value" where
  "inherited k =
     (if k = ''__proto__'' then ObjectPrototype
      else if k \<in> set Object_prototype_names then Builtin k
      else Data Undefined)"

text \<open>\<open>q[k]\<close>: the own property, else the property of the prototype chain.\<close>

definition quotes_read :: "quotes_object \<Rightarrow> string \<Rightarrow> property_value" where
  "quotes_read q k =
     (case map_of (own_properties q) k of
        Some v \<Rightarrow> Data v
      | None \<Rightarrow>
          (case prototype q of
             None \<Rightarrow> inherited k
           | Some p \<Rightarrow>
               (case map_of p k of
                  Some v \<Rightarrow> Data v
                | None \<Rightarrow> if k = ''__proto__'' then Data (Obj p) else inherited k)))"

text \<open>
  \<open>q[k] = quote\<close> for an object \<open>quote\<close>: an own property is overwritten; otherwise
  the key \<open>__proto__\<close>, unless the prototype has a property of that name of its own,
  reaches the setter of \<open>Object.prototype\<close>, which makes \<open>quote\<close> the prototype of
  \<open>q\<close>; any other key becomes a new own property.
\<close>

definition assign_quote :: "string \<Rightarrow> obj \<Rightarrow> quotes_object \<Rightarrow> quotes_object" where
  "assign_quote k quote q =
     (if map_of (own_properties q) k \<noteq> None
      then q\<lparr>own_properties := AList.update k (Obj quote) (own_properties q)\<rparr>
      else if k = ''__proto__''
              \<and> (case prototype q of None \<Rightarrow> True | Some p \<Rightarrow> map_of p k = None)
      then q\<lparr>prototype := Some quote\<rparr>
      else q\<lparr>own_properties := AList.update k (Obj quote) (own_properties q)\<rparr>)"

text \<open>
  A handler calls a state setter some number of times, each time with a function of the
  previous state; every call is one state update. \<open>states_after\<close> lists the states the
  cell goes through, \<open>setState_all\<close> is the state it ends in.
\<close>

primrec states_after :: "('a \<Rightarrow> 'a) list \<Rightarrow> 'a \<Rightarrow> 'a list" where
  "states_after [] q = []"
| "states_after (f # fs) q = f q # states_after fs (f q)"

definition setState_all :: "('a \<Rightarrow> 'a) list \<Rightarrow> 'a \<Rightarrow> 'a" where
  "setState_all fs q = fold (\<lambda>f x. f x) fs q"

section \<open>Dashboard: the state\<close>

text \<open>
  The \<open>useState\<close> cells of \<open>components/Dashboard.jsx\<close> that the handlers below read
  and write. \<open>criticalStatusChanges\<close> counts the state changes of \<open>criticalStatus\<close>
  that React was notified of (each schedules a render).
\<close>

record dashboard =
  accountSummary :: "obj option"
  positions :: "obj list"
  orders :: "obj list"
  lastUpdate :: "string option"
  criticalStatus :: jsval
  criticalStatusChanges :: nat
  criticalStatusError :: "string option"
  quotes :: quotes_object
  relayLogs :: "obj list"
  tradingEnabled :: bool
  isKillSwitchLoading :: bool
  positionSizingSettings :: jsval
  showPositionSizingModal :: bool
  positionSizingLoading :: bool
  marginSettings :: jsval
  showMarginModal :: bool
  marginLoading :: bool

definition initial_dashboard :: dashboard where
  "initial_dashboard =
     \<lparr>accountSummary = None,
      positions = [],
      orders = [],
      lastUpdate = None,
      criticalStatus = Null,
      criticalStatusChanges = 0,
      criticalStatusError = None,
      quotes = \<lparr>own_properties = [], prototype = None\<rparr>,
      relayLogs = [],
      tradingEnabled = False,
      isKillSwitchLoading = False,
      positionSizingSettings =
        Obj [(''method'', Str ''fixed''), (''fixedQuantity'', Num 1),
             (''riskPercentage'', Num 10), (''maxContracts'', Num 10),
             (''contractType'', Str ''auto'')],
      showPositionSizingModal = False,
      positionSizingLoading = False,
      marginSettings = Obj [],
      showMarginModal = False,
      marginLoading = False\<rparr>"

text \<open>\<open>xs.slice(0, n)\<close> is \<open>take n xs\<close>; \<open>xs.slice(-n)\<close> keeps the last \<open>n\<close>.\<close>

definition slice_last :: "nat \<Rightarrow> 'a list \<Rightarrow> 'a list" where
  "slice_last n xs = drop (length xs - n) xs"

definition log_entry :: "jsval \<Rightarrow> string \<Rightarrow> string \<Rightarrow> obj" where
  "log_entry ts ty txt = [(''timestamp'', ts), (''type'', Str ty), (''data'', Str txt)]"

section \<open>Dashboard: kill switch\<close>

text \<open>
  \<open>handleKillSwitchToggle\<close> runs to its \<open>await\<close>, and resumes when
  \<open>api.setKillSwitch(newState)\<close> has settled; other events are handled in between.
  \<open>confirmed\<close> is the answer of \<open>window.confirm\<close>, asked only when enabling. The first
  part returns the \<open>newState\<close> it requested, if it requested one.
\<close>

definition kill_switch_text :: "bool \<Rightarrow> string" where
  "kill_switch_text on =
     (if on then emoji_green_circle @ '' Trading ENABLED''
      else emoji_red_circle @ '' Trading DISABLED (Kill Switch Active)'')"

definition handleKillSwitchToggle_begin :: "bool \<Rightarrow> dashboard \<Rightarrow> bool option \<times> dashboard" where
  "handleKillSwitchToggle_begin confirmed s =
     (let newState = \<not> tradingEnabled s
      in if newState \<and> \<not> confirmed then (None, s)
         else (Some newState, s\<lparr>isKillSwitchLoading := True\<rparr>))"

definition handleKillSwitchToggle_resume ::
    "string \<Rightarrow> bool \<Rightarrow> thrown + kill_switch_result \<Rightarrow> dashboard \<Rightarrow> dashboard" where
  "handleKillSwitchToggle_resume now newState settled s =
     (case settled of
        Inr resp \<Rightarrow>
          s\<lparr>tradingEnabled := ks_tradingEnabled resp,
            relayLogs :=
              take 100 (relayLogs s @ [log_entry (Str now) ''kill_switch'' (kill_switch_text newState)]),
            isKillSwitchLoading := False\<rparr>
      | Inl error \<Rightarrow> s\<lparr>isKillSwitchLoading := False\<rparr>)"

text \<open>The push event \<open>kill_switch_changed\<close>.\<close>

record kill_switch_changed =
  enabled :: bool
  timestamp :: jsval

definition handleKillSwitchChanged :: "kill_switch_changed \<Rightarrow> dashboard \<Rightarrow> dashboard" where
  "handleKillSwitchChanged data s =
     s\<lparr>tradingEnabled := enabled data,
       relayLogs :=
         take 100 (relayLogs s @ [log_entry (timestamp data) ''kill_switch''
                                    (kill_switch_text (enabled data))])\<rparr>"

section \<open>Dashboard: settings commands\<close>

text \<open>
  \<open>handlePositionSizingUpdate\<close> and \<open>handleMarginUpdate\<close>, each in the part before
  its \<open>await\<close> and the part after. The new position-sizing settings are an object (the
  form of the modal).
\<close>

definition handlePositionSizingUpdate_begin :: "dashboard \<Rightarrow> dashboard" where
  "handlePositionSizingUpdate_begin s = s\<lparr>positionSizingLoading := True\<rparr>"

definition handlePositionSizingUpdate_resume ::
    "string \<Rightarrow> obj \<Rightarrow> thrown + jsval \<Rightarrow> dashboard \<Rightarrow> dashboard" where
  "handlePositionSizingUpdate_resume now newSettings settled s =
     (case settled of
        Inl error \<Rightarrow> s\<lparr>positionSizingLoading := False\<rparr>
      | Inr resp \<Rightarrow>
          (case member resp ''settings'' of
             Inl error \<Rightarrow> s\<lparr>positionSizingLoading := False\<rparr>
           | Inr settings \<Rightarrow>
               s\<lparr>positionSizingSettings := settings,
                 relayLogs :=
                   take 100 (relayLogs s @
                     [log_entry (Str now) ''position_sizing''
                        (emoji_gear @ '' Position sizing updated: ''
                           @ js_toString (js_get newSettings ''method'') @ '' method'')]),
                 showPositionSizingModal := False,
                 positionSizingLoading := False\<rparr>))"

definition handleMarginUpdate_begin :: "dashboard \<Rightarrow> dashboard" where
  "handleMarginUpdate_begin s = s\<lparr>marginLoading := True\<rparr>"

definition handleMarginUpdate_resume :: "string \<Rightarrow> thrown + jsval \<Rightarrow> dashboard \<Rightarrow> dashboard" where
  "handleMarginUpdate_resume now settled s =
     (case settled of
        Inl error \<Rightarrow> s\<lparr>marginLoading := False\<rparr>
      | Inr resp \<Rightarrow>
          (case member resp ''marginSettings'' of
             Inl error \<Rightarrow> s\<lparr>marginLoading := False\<rparr>
           | Inr settings \<Rightarrow>
               s\<lparr>marginSettings := settings,
                 relayLogs :=
                   take 100 [log_entry (Str now) ''margin_settings''
                               (emoji_money_bag @ '' Margin requirements updated'')],
                 showMarginModal := False,
                 marginLoading := False\<rparr>))"

definition handleMarginUpdate :: "string \<Rightarrow> jsval \<Rightarrow> dashboard \<Rightarrow> dashboard" where
  "handleMarginUpdate now newMarginSettings s =
     handleMarginUpdate_resume now (setMarginSettings newMarginSettings)
       (handleMarginUpdate_begin s)"

section \<open>Dashboard: activity log events\<close>

definition handleRelayOutput :: "obj \<Rightarrow> dashboard \<Rightarrow> dashboard" where
  "handleRelayOutput data s =
     s\<lparr>relayLogs :=
         slice_last 49 (relayLogs s) @
           [[(''timestamp'', js_get data ''timestamp''),
             (''type'', js_get data ''type''),
             (''data'', js_get data ''data'')]]\<rparr>"

definition handleWebhookError :: "obj \<Rightarrow> dashboard \<Rightarrow> dashboard" where
  "handleWebhookError data s =
     s\<lparr>relayLogs :=
         slice_last 49 (relayLogs s) @
           [log_entry (js_get data ''timestamp'') ''stderr''
              (emoji_cross_mark @ '' Webhook Error: '' @ js_toString (js_get data ''error''))]\<rparr>"

definition formattedLogs :: "obj list \<Rightarrow> obj list" where
  "formattedLogs activities =
     map (\<lambda>activity.
            [(''timestamp'', js_get activity ''timestamp''),
             (''type'', js_get activity ''type''),
             (''data'', js_or (js_get activity ''message'') (js_get activity ''data''))])
         activities"

definition handleInitialActivity :: "obj list \<Rightarrow> dashboard \<Rightarrow> dashboard" where
  "handleInitialActivity activities s =
     s\<lparr>relayLogs := take 100 (formattedLogs activities @ relayLogs s)\<rparr>"

definition handleFilteredActivity :: "obj list \<Rightarrow> dashboard \<Rightarrow> dashboard" where
  "handleFilteredActivity activities s =
     s\<lparr>relayLogs := take 100 (formattedLogs activities)\<rparr>"

definition handleRateLimitWarning :: "obj \<Rightarrow> dashboard \<Rightarrow> dashboard" where
  "handleRateLimitWarning data s =
     s\<lparr>relayLogs :=
         take 100 (relayLogs s @
           [log_entry (js_get data ''timestamp'') ''system''
              (emoji_warning @ '' Rate limit protection activated for account ''
                 @ js_toString (js_get data ''accountId''))])\<rparr>"

text \<open>A sequence of events that write the activity log.\<close>

datatype log_event =
    KillSwitchToggled string bool "thrown + kill_switch_result"
  | KillSwitchChanged kill_switch_changed
  | PositionSizingUpdated string obj "thrown + jsval"
  | MarginUpdated string jsval
  | RelayOutput obj
  | WebhookError obj
  | InitialActivity "obj list"
  | FilteredActivity "obj list"
  | RateLimitWarning obj

definition log_step :: "log_event \<Rightarrow> dashboard \<Rightarrow> dashboard" where
  "log_step ev s =
     (case ev of
        KillSwitchToggled now newState settled \<Rightarrow>
          handleKillSwitchToggle_resume now newState settled s
      | KillSwitchChanged data \<Rightarrow> handleKillSwitchChanged data s
      | PositionSizingUpdated now newSettings settled \<Rightarrow>
          handlePositionSizingUpdate_resume now newSettings settled s
      | MarginUpdated now newMarginSettings \<Rightarrow> handleMarginUpdate now newMarginSettings s
      | RelayOutput data \<Rightarrow> handleRelayOutput data s
      | WebhookError data \<Rightarrow> handleWebhookError data s
      | InitialActivity activities \<Rightarrow> handleInitialActivity activities s
      | FilteredActivity activities \<Rightarrow> handleFilteredActivity activities s
      | RateLimitWarning data \<Rightarrow> handleRateLimitWarning data s)"

definition log_run :: "log_event list \<Rightarrow> dashboard \<Rightarrow> dashboard" where
  "log_run evs s = fold log_step evs s"

section \<open>Dashboard: quotes\<close>

text \<open>
  \<open>handleMarketData\<close>: the function it passes to \<open>setQuotes\<close>, the calls of
  \<open>setQuotes\<close> it makes (one), and the handler. A computed key is the string of its
  value. The object literal \<open>{...prev, [data.symbol]: newQuote}\<close> is a new object with
  prototype \<open>Object.prototype\<close>, the own properties of \<open>prev\<close> and the own property
  \<open>data.symbol\<close>; the alias is then assigned.
\<close>

definition newQuote :: "obj \<Rightarrow> obj" where
  "newQuote data =
     [(''symbol'', js_get data ''symbol''),
      (''baseSymbol'', js_get data ''baseSymbol''),
      (''open'', js_get data ''open''),
      (''high'', js_get data ''high''),
      (''low'', js_get data ''low''),
      (''close'', js_get data ''close''),
      (''previousClose'', js_get data ''previousClose''),
      (''volume'', js_get data ''volume''),
      (''timestamp'', js_get data ''timestamp'')]"

definition handleMarketData_updates :: "obj \<Rightarrow> quotes_object \<Rightarrow> quotes_object" where
  "handleMarketData_updates data prev =
     (let updates =
            \<lparr>own_properties =
               AList.update (js_toString (js_get data ''symbol'')) (Obj (newQuote data))
                 (own_properties prev),
             prototype = None\<rparr>
      in if truthy (js_get data ''baseSymbol'')
         then assign_quote (js_toString (js_get data ''baseSymbol'')) (newQuote data) updates
         else updates)"

definition handleMarketData_setQuotes :: "obj \<Rightarrow> (quotes_object \<Rightarrow> quotes_object) list" where
  "handleMarketData_setQuotes data = [handleMarketData_updates data]"

definition handleMarketData :: "obj \<Rightarrow> dashboard \<Rightarrow> dashboard" where
  "handleMarketData data s =
     s\<lparr>quotes := setState_all (handleMarketData_setQuotes data) (quotes s)\<rparr>"

section \<open>Dashboard: critical status\<close>

text \<open>
  What the function passed to \<open>setCriticalStatus\<close> returns: \<open>prev\<close> itself, or the value
  just received. React compares the returned value with the state by \<open>Object.is\<close> and
  does nothing when they are the same: the same reference, or the same primitive. A
  received object is a reference of its own.
\<close>

datatype 'a returned = Prev | Received 'a

definition setCriticalStatus :: "jsval returned \<Rightarrow> dashboard \<Rightarrow> dashboard" where
  "setCriticalStatus r s =
     (case r of
        Prev \<Rightarrow> s
      | Received v \<Rightarrow>
          if is_primitive v \<and> v = criticalStatus s then s
          else s\<lparr>criticalStatus := v, criticalStatusChanges := Suc (criticalStatusChanges s)\<rparr>)"

definition handleCriticalStatusUpdate :: "jsval \<Rightarrow> dashboard \<Rightarrow> dashboard" where
  "handleCriticalStatusUpdate data s =
     setCriticalStatus
       (let newData = JSON_stringify data;
            prevData = JSON_stringify (criticalStatus s)
        in if newData \<noteq> prevData then Received data else Prev)
       s"

text \<open>
  \<open>loadCriticalStatus\<close>, resumed with how \<open>api.getCriticalStatus()\<close> settled.
\<close>

definition loadCriticalStatus :: "thrown + obj \<Rightarrow> dashboard \<Rightarrow> dashboard" where
  "loadCriticalStatus settled s =
     (case settled of
        Inr resp \<Rightarrow>
          setCriticalStatus
            (if \<not> truthy (criticalStatus s) then Received (Obj resp)
             else let newData = JSON_stringify (Obj resp);
                      prevData = JSON_stringify (criticalStatus s)
                  in if newData \<noteq> prevData then Received (Obj resp) else Prev)
            s
      | Inl error \<Rightarrow>
          s\<lparr>criticalStatusError :=
              Some (or_str (Some (thrown_message error)) ''Failed to load trading status'')\<rparr>)"

text \<open>The refresh as the dashboard runs it: the two GETs settle, then the state is updated.\<close>

definition refreshCriticalStatus ::
    "string \<Rightarrow> thrown + obj \<Rightarrow> thrown + obj list \<Rightarrow> dashboard \<Rightarrow> dashboard" where
  "refreshCriticalStatus now activeStatus servicesGot s =
     loadCriticalStatus (getCriticalStatus now activeStatus servicesGot) s"

section \<open>Dashboard: account summary, positions and orders\<close>

text \<open>
  \<open>loadAccountSummary\<close>, resumed with how \<open>api.getAccountSummary(account.id)\<close>
  settled: rejected, or fulfilled with a body, of which \<open>summary\<close> is read. The selected
  account is an object, or \<open>null\<close>.
\<close>

definition account_id :: "obj option \<Rightarrow> jsval" where
  "account_id account = (case account of None \<Rightarrow> Undefined | Some a \<Rightarrow> js_get a ''id'')"

definition thrown_response_status :: "thrown \<Rightarrow> nat option" where
  "thrown_response_status e = (case e of AxiosError a \<Rightarrow> response_status a | _ \<Rightarrow> None)"

definition summary_placeholder :: "jsval \<Rightarrow> obj" where
  "summary_placeholder accountId =
     [(''accountId'', accountId),
      (''balance'', Num 0),
      (''equity'', Num 0),
      (''margin'', Num 0),
      (''availableFunds'', Num 0),
      (''dayPnL'', Num 0),
      (''dayPnLPercent'', Num 0),
      (''totalPositions'', Num 0),
      (''longPositions'', Num 0),
      (''shortPositions'', Num 0),
      (''workingOrders'', Num 0),
      (''tradesExecutedToday'', Num 0),
      (''cached'', Bool False),
      (''empty'', Bool True),
      (''loading'', Bool True)]"

definition loadAccountSummary :: "obj option \<Rightarrow> thrown + (obj option) \<Rightarrow> dashboard \<Rightarrow> dashboard" where
  "loadAccountSummary account settled s =
     (case account of
        None \<Rightarrow> s
      | Some a \<Rightarrow>
          (case settled of
             Inr summary \<Rightarrow> s\<lparr>accountSummary := summary\<rparr>
           | Inl error \<Rightarrow>
               if thrown_response_status error = Some 503
               then s\<lparr>accountSummary := Some (summary_placeholder (js_get a ''id''))\<rparr>
               else s))"

text \<open>
  \<open>loadOrdersAndPositions\<close>, resumed with how the two calls of \<open>Promise.allSettled\<close>
  settled; of a fulfilled value, \<open>positions\<close> and \<open>orders\<close> are read (\<open>None\<close> when
  the value has no such property).
\<close>

definition enriched :: "obj \<Rightarrow> bool" where
  "enriched ord = truthy (js_and (js_get ord ''limitPrice'') (js_get ord ''orderType''))"

definition setOrders_snapshot :: "obj list \<Rightarrow> obj list \<Rightarrow> obj list" where
  "setOrders_snapshot apiOrders prevOrders =
     (if length prevOrders > 0 \<and> list_ex enriched prevOrders then prevOrders else apiOrders)"

definition loadOrdersAndPositions ::
    "thrown + (obj list option) \<Rightarrow> thrown + (obj list option) \<Rightarrow> dashboard \<Rightarrow> dashboard" where
  "loadOrdersAndPositions positionsResponse ordersResponse s =
     (let s1 = (case positionsResponse of
                  Inr value_positions \<Rightarrow>
                    s\<lparr>positions := (case value_positions of None \<Rightarrow> [] | Some ps \<Rightarrow> ps)\<rparr>
                | Inl reason \<Rightarrow> s)
      in case ordersResponse of
           Inr value_orders \<Rightarrow>
             (let apiOrders = (case value_orders of None \<Rightarrow> [] | Some os \<Rightarrow> os)
              in s1\<lparr>orders := setOrders_snapshot apiOrders (orders s1)\<rparr>)
         | Inl reason \<Rightarrow> s1)"

text \<open>
  What \<open>ordersResponse.value.orders\<close> reads when the call is the
  \<open>api.getAccountOrders\<close> of \<open>services/api.js\<close>: that call resolves with an array, and
  an array has no property \<open>orders\<close>.
\<close>

definition orders_of_array :: "obj list \<Rightarrow> obj list option" where
  "orders_of_array value_array = None"

definition settled_getAccountOrders ::
    "jsval \<Rightarrow> thrown + (obj list option) \<Rightarrow> thrown + (obj list option)" where
  "settled_getAccountOrders accountId got =
     (case getAccountOrders accountId got of
        Inl e \<Rightarrow> Inl e
      | Inr value_array \<Rightarrow> Inr (orders_of_array value_array))"

text \<open>
  The push event \<open>account_data_updated\<close>, by its \<open>dataType\<close>: \<open>balance\<close> with an
  object, \<open>positions\<close> and \<open>orders\<close> with an array of objects (each \<open>data\<close> may be
  absent), or another type. The first field is the event's \<open>accountId\<close>. The handler
  compares it with the \<open>account\<close> its closure holds.
\<close>

datatype account_data_updated =
    BalanceData jsval "obj option"
  | PositionsData jsval "obj list option"
  | OrdersData jsval "obj list option"
  | OtherData jsval

definition handleAccountDataUpdated ::
    "obj option \<Rightarrow> string \<Rightarrow> account_data_updated \<Rightarrow> dashboard \<Rightarrow> dashboard" where
  "handleAccountDataUpdated account now data s =
     (case data of
        BalanceData accountId d \<Rightarrow>
          if strict_eq accountId (account_id account)
          then s\<lparr>accountSummary :=
                   (case accountSummary s of
                      None \<Rightarrow> None
                    | Some prev \<Rightarrow>
                        Some (spread (spread prev (case d of None \<Rightarrow> [] | Some x \<Rightarrow> x))
                                [(''cached'', Bool True), (''dataAge'', Num 0)])),
                 lastUpdate := Some now\<rparr>
          else s\<lparr>lastUpdate := Some now\<rparr>
      | PositionsData accountId d \<Rightarrow>
          if strict_eq accountId (account_id account)
          then s\<lparr>positions := (case d of None \<Rightarrow> [] | Some ps \<Rightarrow> ps), lastUpdate := Some now\<rparr>
          else s\<lparr>lastUpdate := Some now\<rparr>
      | OrdersData accountId d \<Rightarrow>
          if strict_eq accountId (account_id account)
          then s\<lparr>orders := (case d of None \<Rightarrow> [] | Some os \<Rightarrow> os), lastUpdate := Some now\<rparr>
          else s\<lparr>lastUpdate := Some now\<rparr>
      | OtherData accountId \<Rightarrow> s\<lparr>lastUpdate := Some now\<rparr>)"

text \<open>
  A sequence of snapshot refreshes and push events, in the order the dashboard handles
  them.
\<close>

datatype account_event =
    Snapshot "thrown + (obj list option)" "thrown + (obj list option)"
  | Push string account_data_updated

definition account_step :: "obj option \<Rightarrow> account_event \<Rightarrow> dashboard \<Rightarrow> dashboard" where
  "account_step account ev s =
     (case ev of
        Snapshot positionsResponse ordersResponse \<Rightarrow>
          loadOrdersAndPositions positionsResponse ordersResponse s
      | Push now data \<Rightarrow> handleAccountDataUpdated account now data s)"

definition account_run :: "obj option \<Rightarrow> account_event list \<Rightarrow> dashboard \<Rightarrow> dashboard" where
  "account_run account evs s = fold (account_step account) evs s"

text \<open>An event that the handler accepts as the orders of the selected account.\<close>

definition writes_orders :: "obj option \<Rightarrow> account_event \<Rightarrow> bool" where
  "writes_orders account ev =
     (case ev of
        Push now (OrdersData accountId d) \<Rightarrow> strict_eq accountId (account_id account)
      | _ \<Rightarrow> False)"

text \<open>
  The HTTP status a failure carries, wherever the error keeps it: \<open>error.status\<close> of a
  normalized error, \<open>error.response.status\<close> of an axios error.
\<close>

definition http_status :: "thrown \<Rightarrow> nat option" where
  "http_status e =
     (case e of
        Thrown a \<Rightarrow> err_status a
      | AxiosError a \<Rightarrow> response_status a
      | TypeError m \<Rightarrow> None)"

section \<open>Supporting lemmas\<close>

lemma show_nat_0: "show_nat 0 = ''0''"
  by (simp add: show_nat.simps)

text \<open>Reading a key of the quotes object after a write.\<close>

lemma quotes_read_own:
  "map_of (own_properties q) k = Some v \<Longrightarrow> quotes_read q k = Data v"
  by (simp add: quotes_read_def)

lemma assign_quote_read:
  "map_of quote ''__proto__'' = None \<Longrightarrow>
     quotes_read (assign_quote k quote q) k = Data (Obj quote)"
  by (auto simp: assign_quote_def quotes_read_def update_conv' split: option.splits)

lemma newQuote_no_proto: "map_of (newQuote data) ''__proto__'' = None"
  by (simp add: newQuote_def)

lemma assign_quote_keeps_own:
  "map_of (own_properties q) k' = Some v \<Longrightarrow> k' \<noteq> k \<Longrightarrow>
     map_of (own_properties (assign_quote k quote q)) k' = Some v"
  by (simp add: assign_quote_def update_conv')

lemma assign_quote_other_own:
  "k' \<noteq> k \<Longrightarrow>
     map_of (own_properties (assign_quote k quote q)) k' = map_of (own_properties q) k'"
  by (simp add: assign_quote_def update_conv')

lemma handleMarketData_updates_reads:
  "truthy (js_get data ''baseSymbol'') \<Longrightarrow>
     quotes_read (handleMarketData_updates data prev) (js_toString (js_get data ''symbol''))
       = Data (Obj (newQuote data))
   \<and> quotes_read (handleMarketData_updates data prev) (js_toString (js_get data ''baseSymbol''))
       = Data (Obj (newQuote data))"
proof -
  assume carried: "truthy (js_get data ''baseSymbol'')"
  let ?sym = "js_toString (js_get data ''symbol'')"
  let ?base = "js_toString (js_get data ''baseSymbol'')"
  let ?updates =
    "\<lparr>own_properties = AList.update ?sym (Obj (newQuote data)) (own_properties prev),
      prototype = None\<rparr>"
  have after: "handleMarketData_updates data prev = assign_quote ?base (newQuote data) ?updates"
    using carried by (simp add: handleMarketData_updates_def Let_def)
  have own_sym: "map_of (own_properties ?updates) ?sym = Some (Obj (newQuote data))"
    by (simp add: update_conv')
  have by_base: "quotes_read (assign_quote ?base (newQuote data) ?updates) ?base
                   = Data (Obj (newQuote data))"
    by (rule assign_quote_read [OF newQuote_no_proto])
  have by_sym: "quotes_read (assign_quote ?base (newQuote data) ?updates) ?sym
                  = Data (Obj (newQuote data))"
  proof (cases "?sym = ?base")
    case True
    then show ?thesis using by_base by simp
  next
    case False
    then have "map_of (own_properties (assign_quote ?base (newQuote data) ?updates)) ?sym
                 = Some (Obj (newQuote data))"
      using own_sym by (intro assign_quote_keeps_own) simp_all
    then show ?thesis by (rule quotes_read_own)
  qed
  from after by_sym by_base show ?thesis by simp
qed

lemma handleMarketData_updates_other_own:
  "k \<noteq> js_toString (js_get data ''symbol'') \<Longrightarrow>
   k \<noteq> js_toString (js_get data ''baseSymbol'') \<Longrightarrow>
     map_of (own_properties (handleMarketData_updates data prev)) k
       = map_of (own_properties prev) k"
  by (simp add: handleMarketData_updates_def Let_def assign_quote_other_own update_conv')

text \<open>\<open>api.setKillSwitch\<close> resolves whenever the POST is fulfilled with an object.\<close>

lemma setKillSwitch_resolves:
  "setKillSwitch requested (Inr (Obj body)) =
     Inr \<lparr>ks_tradingEnabled = requested, ks_status = js_get body ''status'',
          ks_message = js_get body ''status''\<rparr>"
  by (simp add: setKillSwitch_def member_def)

text \<open>A snapshot of the orders is discarded while an enriched order is held.\<close>

lemma snapshot_keeps_enriched:
  "list_ex enriched prevOrders \<Longrightarrow> setOrders_snapshot apiOrders prevOrders = prevOrders"
  by (cases prevOrders) (simp_all add: setOrders_snapshot_def)

lemma step_keeps_enriched_orders:
  "list_ex enriched (orders s) \<Longrightarrow> \<not> writes_orders account ev \<Longrightarrow>
     orders (account_step account ev s) = orders s"
  by (auto simp: account_step_def writes_orders_def loadOrdersAndPositions_def Let_def
        handleAccountDataUpdated_def snapshot_keeps_enriched
        split: account_event.splits account_data_updated.splits sum.splits)

lemma run_keeps_enriched_orders:
  "list_ex enriched (orders s) \<Longrightarrow> \<forall>ev \<in> set evs. \<not> writes_orders account ev \<Longrightarrow>
     orders (account_run account evs s) = orders s"
proof (induction evs arbitrary: s)
  case Nil
  then show ?case by (simp add: account_run_def)
next
  case (Cons ev evs)
  have kept: "orders (account_step account ev s) = orders s"
    using Cons.prems by (simp add: step_keeps_enriched_orders)
  have "orders (account_run account evs (account_step account ev s))
          = orders (account_step account ev s)"
    using Cons.prems kept by (intro Cons.IH) simp_all
  then show ?case using kept by (simp add: account_run_def)
qed

text \<open>
  Through \<open>api.getAccountOrders\<close> a fulfilled snapshot refresh reads no orders: it
  leaves the orders state empty unless an enriched order is held.
\<close>

lemma snapshot_through_api_reads_no_orders:
  "orders (loadOrdersAndPositions positionsResponse
             (settled_getAccountOrders accountId (Inr dashboard_orders)) s)
     = (if list_ex enriched (orders s) then orders s else [])"
  by (cases "orders s")
     (simp_all add: loadOrdersAndPositions_def settled_getAccountOrders_def getAccountOrders_def
        orders_of_array_def setOrders_snapshot_def Let_def split: sum.splits)

text \<open>
  The cap of the activity log: none of these events leaves more than 100 entries, and
  relay output always keeps the entry it adds.
\<close>

lemma log_step_capped:
  "length (relayLogs s) \<le> 100 \<Longrightarrow> length (relayLogs (log_step ev s)) \<le> 100"
  by (cases ev)
     (auto simp: log_step_def handleKillSwitchToggle_resume_def handleKillSwitchChanged_def
        handlePositionSizingUpdate_resume_def handleMarginUpdate_def handleMarginUpdate_resume_def
        handleMarginUpdate_begin_def setMarginSettings_def
        handleRelayOutput_def handleWebhookError_def handleInitialActivity_def
        handleFilteredActivity_def handleRateLimitWarning_def slice_last_def
        split: sum.splits)

lemma log_run_capped:
  "length (relayLogs s) \<le> 100 \<Longrightarrow> length (relayLogs (log_run evs s)) \<le> 100"
  unfolding log_run_def
  by (induction evs arbitrary: s) (simp_all add: log_step_capped)

lemma relay_output_keeps_new_entry:
  "last (relayLogs (handleRelayOutput data s))
     = [(''timestamp'', js_get data ''timestamp''), (''type'', js_get data ''type''),
        (''data'', js_get data ''data'')]"
  by (simp add: handleRelayOutput_def)

text \<open>A failed GET makes \<open>api.getCriticalStatus\<close> resolve with its error status.\<close>

lemma getCriticalStatus_rest_failure:
  "getCriticalStatus now (Inl e) servicesGot = Inr (getCriticalStatus_failed now)"
  "getCriticalStatus now activeStatus (Inl e) = Inr (getCriticalStatus_failed now)"
  by (simp_all add: getCriticalStatus_def getCriticalStatus_try_def split: sum.splits)

lemma loadCriticalStatus_stores:
  "criticalStatus (loadCriticalStatus (Inr resp) s) =
     (if truthy (criticalStatus s) \<and> JSON_stringify (Obj resp) = JSON_stringify (criticalStatus s)
      then criticalStatus s else Obj resp)"
  by (simp add: loadCriticalStatus_def setCriticalStatus_def is_primitive_def Let_def)

lemma thrown_response_status_http:
  "thrown_response_status e = Some n \<Longrightarrow> http_status e = Some n"
  by (cases e) (simp_all add: thrown_response_status_def http_status_def)

text \<open>
  No error of the Backend Client has a \<open>response\<close> property, so the 503 branch of
  \<open>loadAccountSummary\<close> is not taken for any call that went through the interceptor.
\<close>

lemma loadAccountSummary_client_error:
  "loadAccountSummary account (Inl (Thrown (snd (api_onRejected ae b)))) s = s"
  by (simp add: loadAccountSummary_def thrown_response_status_def split: option.splits)

text \<open>Only a truthy value serializes as an object does.\<close>

lemma stringify_object_truthy:
  "JSON_stringify (Obj resp) = JSON_stringify prev \<Longrightarrow> truthy prev"
proof (cases prev)
  case (Num n)
  assume eq: "JSON_stringify (Obj resp) = JSON_stringify prev"
  show ?thesis
  proof (cases "n = 0")
    case True
    with eq Num show ?thesis by (simp add: show_int_def show_nat_0)
  next
    case False
    with Num show ?thesis by (simp add: truthy_def)
  qed
next
  case (Str t)
  assume eq: "JSON_stringify (Obj resp) = JSON_stringify prev"
  then show ?thesis using Str by (cases t) (simp_all add: truthy_def JSON_quote_def)
qed (auto simp: truthy_def split: if_splits)

section \<open>The claims\<close>

subsection \<open>C1: orders, snapshot against push\<close>

text \<open>
  C1, as the code has it. A push of the orders of the selected account replaces the
  orders state; a snapshot refresh is discarded while the state holds an order whose
  \<open>limitPrice\<close> and \<open>orderType\<close> are both truthy. So when the last accepted orders push
  of a sequence carried such an order, the final orders state is exactly the list of
  that push, whatever came before it and however many snapshot refreshes (fulfilled or
  failed) and other events follow it.
\<close>

theorem last_enriched_push_survives_snapshots:
  "strict_eq accountId (account_id account) \<Longrightarrow>
   list_ex enriched pushed \<Longrightarrow>
   \<forall>ev \<in> set later. \<not> writes_orders account ev \<Longrightarrow>
     orders (account_run account
               (earlier @ [Push now (OrdersData accountId (Some pushed))] @ later) s)
       = pushed"
proof -
  assume acc: "strict_eq accountId (account_id account)"
    and enr: "list_ex enriched pushed"
    and lat: "\<forall>ev \<in> set later. \<not> writes_orders account ev"
  let ?s1 = "account_run account earlier s"
  let ?s2 = "account_step account (Push now (OrdersData accountId (Some pushed))) ?s1"
  have pushed: "orders ?s2 = pushed"
    using acc by (simp add: account_step_def handleAccountDataUpdated_def)
  have "orders (account_run account later ?s2) = orders ?s2"
    using enr lat pushed by (intro run_keeps_enriched_orders) simp_all
  then show ?thesis
    using pushed by (simp add: account_run_def)
qed

text \<open>
  Witness for C1: order \<open>A1\<close> arrives by snapshot, a push sets its \<open>limitPrice\<close> and
  \<open>orderType\<close>, and two snapshot refreshes follow, one fulfilled and one with a rejected
  positions call.
\<close>

theorem last_enriched_push_survives_snapshots_witness:
  "orders
     (account_run (Some [(''id'', Num 7)])
        ([Snapshot (Inr (Some [])) (Inr (Some [[(''id'', Str ''A1''), (''status'', Str ''Working'')]]))]
         @ [Push ''2025-01-01T00:00:01.000Z''
              (OrdersData (Num 7)
                 (Some [[(''id'', Str ''A1''), (''status'', Str ''Working''),
                         (''limitPrice'', Num 20000), (''orderType'', Str ''Limit'')]]))]
         @ [Snapshot (Inr (Some [])) (Inr (Some [[(''id'', Str ''A1''), (''status'', Str ''Working'')]])),
            Snapshot (Inl (Thrown (new_Error ''timeout of 10000ms exceeded''))) (Inr None)])
        initial_dashboard)
     = [[(''id'', Str ''A1''), (''status'', Str ''Working''),
         (''limitPrice'', Num 20000), (''orderType'', Str ''Limit'')]]"
proof -
  have acc: "strict_eq (Num 7) (account_id (Some [(''id'', Num 7)]))"
    by (simp add: strict_eq_def is_primitive_def account_id_def js_get_def)
  have enr:
    "list_ex enriched
       [[(''id'', Str ''A1''), (''status'', Str ''Working''),
         (''limitPrice'', Num 20000), (''orderType'', Str ''Limit'')]]"
    by (simp add: enriched_def js_and_def truthy_def js_get_def)
  have lat:
    "\<forall>ev \<in> set [Snapshot (Inr (Some []))
                      (Inr (Some [[(''id'', Str ''A1''), (''status'', Str ''Working'')]])),
                    Snapshot (Inl (Thrown (new_Error ''timeout of 10000ms exceeded''))) (Inr None)].
       \<not> writes_orders (Some [(''id'', Num 7)]) ev"
    by (simp add: writes_orders_def)
  show ?thesis
    using last_enriched_push_survives_snapshots [OF acc enr lat] .
qed

text \<open>
  Counterexample to C1 as stated: a push carries \<open>limitPrice\<close> and \<open>orderType\<close> for
  \<open>A1\<close>, a later push for \<open>A1\<close> carries neither, and a snapshot refresh comes last.
  The final orders state holds no enrichment field: it is the snapshot's list when the
  fulfilled value has a property \<open>orders\<close>, and the empty list when the value is the
  array that \<open>api.getAccountOrders\<close> resolves with.
\<close>

theorem enrichment_lost_after_plain_push:
  "orders
     (account_run (Some [(''id'', Num 7)])
        [Snapshot (Inr (Some [])) (Inr (Some [[(''id'', Str ''A1''), (''status'', Str ''Working'')]])),
         Push ''2025-01-01T00:00:01.000Z''
           (OrdersData (Num 7)
              (Some [[(''id'', Str ''A1''), (''status'', Str ''Working''),
                      (''limitPrice'', Num 20000), (''orderType'', Str ''Limit'')]])),
         Push ''2025-01-01T00:00:02.000Z''
           (OrdersData (Num 7) (Some [[(''id'', Str ''A1''), (''status'', Str ''Filled'')]])),
         Snapshot (Inr (Some [])) (Inr (Some [[(''id'', Str ''A1''), (''status'', Str ''Filled'')]]))]
        initial_dashboard)
     = [[(''id'', Str ''A1''), (''status'', Str ''Filled'')]]
   \<and> orders
       (account_run (Some [(''id'', Num 7)])
          [Snapshot (Inr (Some []))
             (settled_getAccountOrders (Num 7)
                (Inr (Some [[(''id'', Str ''A1''), (''accountId'', Num 7),
                             (''status'', Str ''Working'')]]))),
           Push ''2025-01-01T00:00:01.000Z''
             (OrdersData (Num 7)
                (Some [[(''id'', Str ''A1''), (''status'', Str ''Working''),
                        (''limitPrice'', Num 20000), (''orderType'', Str ''Limit'')]])),
           Push ''2025-01-01T00:00:02.000Z''
             (OrdersData (Num 7) (Some [[(''id'', Str ''A1''), (''status'', Str ''Filled'')]])),
           Snapshot (Inr (Some []))
             (settled_getAccountOrders (Num 7)
                (Inr (Some [[(''id'', Str ''A1''), (''accountId'', Num 7),
                             (''status'', Str ''Filled'')]])))]
          initial_dashboard)
     = []"
  by (simp add: account_run_def account_step_def loadOrdersAndPositions_def
        handleAccountDataUpdated_def setOrders_snapshot_def enriched_def js_and_def truthy_def
        js_get_def strict_eq_def is_primitive_def account_id_def initial_dashboard_def
        settled_getAccountOrders_def getAccountOrders_def orders_of_array_def)

subsection \<open>C2: kill switch, command response against push\<close>

text \<open>
  C2, as the code has it. Both the resumed toggle command and the push event
  \<open>kill_switch_changed\<close> write the trading-enabled flag, and the later write stands:
  when the push event is handled after the command's response the flag is the value of
  the push event; when the command's response is handled after the push event and the
  command succeeded, the flag is the requested state.
\<close>

theorem kill_switch_last_write_wins:
  "tradingEnabled
     (handleKillSwitchChanged push
        (handleKillSwitchToggle_resume now requested (setKillSwitch requested posted) s))
     = enabled push
   \<and> (\<forall>r. setKillSwitch requested posted = Inr r \<longrightarrow>
         tradingEnabled
           (handleKillSwitchToggle_resume now requested (setKillSwitch requested posted)
              (handleKillSwitchChanged push s))
         = requested)"
  by (auto simp: handleKillSwitchChanged_def handleKillSwitchToggle_resume_def setKillSwitch_def
        split: sum.splits)

text \<open>
  Witness for C2: trading is off, the user enables it and the backend accepts, and a push
  event says \<open>enabled: false\<close>, once after the response and once before it.
\<close>

theorem kill_switch_last_write_wins_witness:
  "tradingEnabled
     (handleKillSwitchChanged \<lparr>enabled = False, timestamp = Str ''2025-01-01T00:00:02.000Z''\<rparr>
        (handleKillSwitchToggle_resume ''2025-01-01T00:00:01.000Z'' True
           (setKillSwitch True (Inr (Obj [(''status'', Str ''enabled'')])))
           initial_dashboard))
     = False
   \<and> tradingEnabled
        (handleKillSwitchToggle_resume ''2025-01-01T00:00:01.000Z'' True
           (setKillSwitch True (Inr (Obj [(''status'', Str ''enabled'')])))
           (handleKillSwitchChanged \<lparr>enabled = False, timestamp = Str ''2025-01-01T00:00:00.500Z''\<rparr>
              initial_dashboard))
     = True"
proof -
  have resolved:
    "setKillSwitch True (Inr (Obj [(''status'', Str ''enabled'')]))
       = Inr \<lparr>ks_tradingEnabled = True, ks_status = Str ''enabled'', ks_message = Str ''enabled''\<rparr>"
    by (simp add: setKillSwitch_resolves js_get_def)
  have first:
    "tradingEnabled
       (handleKillSwitchChanged \<lparr>enabled = False, timestamp = Str ''2025-01-01T00:00:02.000Z''\<rparr>
          (handleKillSwitchToggle_resume ''2025-01-01T00:00:01.000Z'' True
             (setKillSwitch True (Inr (Obj [(''status'', Str ''enabled'')])))
             initial_dashboard))
       = False"
    using kill_switch_last_write_wins
            [of "\<lparr>enabled = False, timestamp = Str ''2025-01-01T00:00:02.000Z''\<rparr>"
                "''2025-01-01T00:00:01.000Z''" True
                "Inr (Obj [(''status'', Str ''enabled'')])" initial_dashboard]
    by simp
  have second:
    "tradingEnabled
        (handleKillSwitchToggle_resume ''2025-01-01T00:00:01.000Z'' True
           (setKillSwitch True (Inr (Obj [(''status'', Str ''enabled'')])))
           (handleKillSwitchChanged \<lparr>enabled = False, timestamp = Str ''2025-01-01T00:00:00.500Z''\<rparr>
              initial_dashboard))
       = True"
    using kill_switch_last_write_wins
            [of "\<lparr>enabled = False, timestamp = Str ''2025-01-01T00:00:00.500Z''\<rparr>"
                "''2025-01-01T00:00:01.000Z''" True
                "Inr (Obj [(''status'', Str ''enabled'')])" initial_dashboard]
          resolved
    by simp
  from first second show ?thesis by simp
qed

text \<open>
  Counterexample to C2 as stated: trading is off and the user enables it; the push event
  \<open>kill_switch_changed {enabled: false}\<close> is handled while the POST is in flight; the
  backend's answer is handled last. The flag ends up \<open>true\<close>, not the value of the push
  event.
\<close>

theorem kill_switch_push_not_authoritative:
  "fst (handleKillSwitchToggle_begin True initial_dashboard) = Some True
   \<and> tradingEnabled
       (handleKillSwitchToggle_resume ''2025-01-01T00:00:01.000Z'' True
          (setKillSwitch True (Inr (Obj [(''status'', Str ''enabled''), (''enabled'', Bool True)])))
          (handleKillSwitchChanged \<lparr>enabled = False, timestamp = Str ''2025-01-01T00:00:00.500Z''\<rparr>
             (snd (handleKillSwitchToggle_begin True initial_dashboard))))
     \<noteq> enabled \<lparr>enabled = False, timestamp = Str ''2025-01-01T00:00:00.500Z''\<rparr>"
  by (simp add: handleKillSwitchToggle_resume_def setKillSwitch_def member_def
        handleKillSwitchChanged_def handleKillSwitchToggle_begin_def initial_dashboard_def)

subsection \<open>C3: quotes by symbol and by base symbol\<close>

text \<open>
  C3. A market-data event that carries a base-symbol alias (the handler's test: a truthy
  \<open>baseSymbol\<close>) makes one state update of the quotes, and the handler ends in the state
  of that update. In every state the quotes go through while the event is handled, the
  symbol key and the base-symbol key both read the quote built from the event: no state
  has one key updated and the other not. The own properties under every other key are
  the ones held before, and no other cell of the dashboard changes.
\<close>

theorem market_data_both_keys:
  "truthy (js_get data ''baseSymbol'') \<Longrightarrow>
     length (states_after (handleMarketData_setQuotes data) (quotes s)) = 1
   \<and> quotes (handleMarketData data s)
       \<in> set (states_after (handleMarketData_setQuotes data) (quotes s))
   \<and> (\<forall>q \<in> set (states_after (handleMarketData_setQuotes data) (quotes s)).
          quotes_read q (js_toString (js_get data ''symbol'')) = Data (Obj (newQuote data))
        \<and> quotes_read q (js_toString (js_get data ''baseSymbol'')) = Data (Obj (newQuote data)))
   \<and> (\<forall>k. k \<noteq> js_toString (js_get data ''symbol'')
          \<and> k \<noteq> js_toString (js_get data ''baseSymbol'')
          \<longrightarrow> map_of (own_properties (quotes (handleMarketData data s))) k
                = map_of (own_properties (quotes s)) k)
   \<and> (handleMarketData data s)\<lparr>quotes := quotes s\<rparr> = s"
proof -
  assume carried: "truthy (js_get data ''baseSymbol'')"
  have states:
    "states_after (handleMarketData_setQuotes data) (quotes s)
       = [handleMarketData_updates data (quotes s)]"
    by (simp add: handleMarketData_setQuotes_def)
  have final: "quotes (handleMarketData data s) = handleMarketData_updates data (quotes s)"
    by (simp add: handleMarketData_def handleMarketData_setQuotes_def setState_all_def)
  have rest: "(handleMarketData data s)\<lparr>quotes := quotes s\<rparr> = s"
    by (simp add: handleMarketData_def)
  show ?thesis
    using handleMarketData_updates_reads [OF carried, of "quotes s"]
      handleMarketData_updates_other_own [of _ data "quotes s"]
    by (simp add: states final rest)
qed

text \<open>
  Witness for C3: a tick of contract \<open>MNQZ5\<close> with base symbol \<open>MNQ\<close>, on a state that
  holds quotes for \<open>MNQ\<close> and \<open>MES\<close>; and a tick whose base symbol is \<open>__proto__\<close>,
  which becomes the prototype and still reads as the quote.
\<close>

theorem market_data_both_keys_witness:
  "quotes_read
     (quotes
        (handleMarketData
           [(''symbol'', Str ''MNQZ5''), (''baseSymbol'', Str ''MNQ''), (''close'', Num 20000)]
           (initial_dashboard
              \<lparr>quotes :=
                 \<lparr>own_properties = [(''MNQ'', Obj [(''close'', Num 19990)]),
                                     (''MES'', Obj [(''close'', Num 5000)])],
                  prototype = None\<rparr>\<rparr>)))
     ''MNQZ5''
     = Data (Obj (newQuote
                    [(''symbol'', Str ''MNQZ5''), (''baseSymbol'', Str ''MNQ''),
                     (''close'', Num 20000)]))
   \<and> quotes_read
       (quotes
          (handleMarketData
             [(''symbol'', Str ''MNQZ5''), (''baseSymbol'', Str ''MNQ''), (''close'', Num 20000)]
             (initial_dashboard
                \<lparr>quotes :=
                   \<lparr>own_properties = [(''MNQ'', Obj [(''close'', Num 19990)]),
                                       (''MES'', Obj [(''close'', Num 5000)])],
                    prototype = None\<rparr>\<rparr>)))
       ''MNQ''
     = Data (Obj (newQuote
                    [(''symbol'', Str ''MNQZ5''), (''baseSymbol'', Str ''MNQ''),
                     (''close'', Num 20000)]))
   \<and> quotes_read
       (quotes
          (handleMarketData
             [(''symbol'', Str ''MNQZ5''), (''baseSymbol'', Str ''__proto__''),
              (''close'', Num 20000)]
             initial_dashboard))
       ''__proto__''
     = Data (Obj (newQuote
                    [(''symbol'', Str ''MNQZ5''), (''baseSymbol'', Str ''__proto__''),
                     (''close'', Num 20000)]))"
proof -
  let ?data = "[(''symbol'', Str ''MNQZ5''), (''baseSymbol'', Str ''MNQ''), (''close'', Num 20000)]"
  let ?s = "initial_dashboard
              \<lparr>quotes :=
                 \<lparr>own_properties = [(''MNQ'', Obj [(''close'', Num 19990)]),
                                     (''MES'', Obj [(''close'', Num 5000)])],
                  prototype = None\<rparr>\<rparr>"
  let ?data' = "[(''symbol'', Str ''MNQZ5''), (''baseSymbol'', Str ''__proto__''),
                 (''close'', Num 20000)]"
  have carried: "truthy (js_get ?data ''baseSymbol'')"
    and carried': "truthy (js_get ?data' ''baseSymbol'')"
    by (simp_all add: truthy_def js_get_def)
  have keys: "js_toString (js_get ?data ''symbol'') = ''MNQZ5''"
    "js_toString (js_get ?data ''baseSymbol'') = ''MNQ''"
    "js_toString (js_get ?data' ''baseSymbol'') = ''__proto__''"
    by (simp_all add: js_get_def)
  note one = market_data_both_keys [OF carried, of ?s]
  note two = market_data_both_keys [OF carried', of initial_dashboard]
  have "quotes_read (quotes (handleMarketData ?data ?s)) ''MNQZ5'' = Data (Obj (newQuote ?data))
      \<and> quotes_read (quotes (handleMarketData ?data ?s)) ''MNQ'' = Data (Obj (newQuote ?data))"
    using one [THEN conjunct2, THEN conjunct1]
      one [THEN conjunct2, THEN conjunct2, THEN conjunct1] keys
    by auto
  moreover
  have "quotes_read (quotes (handleMarketData ?data' initial_dashboard)) ''__proto__''
          = Data (Obj (newQuote ?data'))"
    using two [THEN conjunct2, THEN conjunct1]
      two [THEN conjunct2, THEN conjunct2, THEN conjunct1] keys
    by auto
  ultimately show ?thesis by simp
qed

subsection \<open>C4: positions push\<close>




subsection \<open>C5: the cap of the activity log\<close>

text \<open>
  C5 at its failing input. The log holds 100 entries and a kill-switch entry is added, by
  the push event or by the resumed toggle command: \<open>[...prev, entry].slice(0, 100)\<close>
  keeps the first 100, so the log is left as it was and the entry that just arrived is
  the one dropped.
\<close>

theorem full_log_drops_new_entry:
  "length (relayLogs s) = 100 \<Longrightarrow>
     relayLogs (handleKillSwitchChanged data s) = relayLogs s
   \<and> relayLogs (handleKillSwitchToggle_resume now newState (Inr r) s) = relayLogs s"
  by (simp add: handleKillSwitchChanged_def handleKillSwitchToggle_resume_def)

text \<open>Witness for C5: a log of 100 entries and the push event \<open>enabled: false\<close>.\<close>

theorem full_log_drops_new_entry_witness:
  "relayLogs
     (handleKillSwitchChanged \<lparr>enabled = False, timestamp = Str ''2025-01-01T00:00:00.000Z''\<rparr>
        (initial_dashboard
           \<lparr>relayLogs := replicate 100 (log_entry (Str ''2024-12-31T00:00:00.000Z'') ''system'' ''old'')\<rparr>))
     = replicate 100 (log_entry (Str ''2024-12-31T00:00:00.000Z'') ''system'' ''old'')"
  using full_log_drops_new_entry
          [of "initial_dashboard
                 \<lparr>relayLogs := replicate 100 (log_entry (Str ''2024-12-31T00:00:00.000Z'') ''system'' ''old'')\<rparr>"
              "\<lparr>enabled = False, timestamp = Str ''2025-01-01T00:00:00.000Z''\<rparr>"]
  by simp

subsection \<open>C6: a failed snapshot refresh\<close>

text \<open>
  C6, as the code has it. A rejected positions call leaves the positions unchanged, a
  rejected orders call leaves the orders unchanged (\<open>api.getAccountOrders\<close> passes the
  rejection of its GET on), and a rejected account-summary call whose failure does not
  carry HTTP status 503 leaves the whole state unchanged. A failed GET of the
  critical-status refresh is caught inside \<open>api.getCriticalStatus\<close>, which resolves with
  an error status (\<open>status: 'error'\<close>, no open positions, no open orders); the dashboard
  stores that status in place of the one it held, unless the held one is truthy and
  serializes identically.
\<close>

theorem failed_refresh_keeps_or_placeholder:
  "positions (loadOrdersAndPositions (Inl reason) ordersResponse s) = positions s
   \<and> orders (loadOrdersAndPositions positionsResponse (Inl reason) s) = orders s
   \<and> orders (loadOrdersAndPositions positionsResponse
                (settled_getAccountOrders accountId (Inl reason)) s) = orders s
   \<and> (http_status e \<noteq> Some 503 \<longrightarrow> loadAccountSummary account (Inl e) s = s)
   \<and> criticalStatus (refreshCriticalStatus now (Inl e) servicesGot s) =
       (if truthy (criticalStatus s)
           \<and> JSON_stringify (Obj (getCriticalStatus_failed now)) = JSON_stringify (criticalStatus s)
        then criticalStatus s else Obj (getCriticalStatus_failed now))
   \<and> criticalStatus (refreshCriticalStatus now activeStatus (Inl e) s) =
       (if truthy (criticalStatus s)
           \<and> JSON_stringify (Obj (getCriticalStatus_failed now)) = JSON_stringify (criticalStatus s)
        then criticalStatus s else Obj (getCriticalStatus_failed now))"
proof -
  have a: "positions (loadOrdersAndPositions (Inl reason) ordersResponse s) = positions s"
    by (simp add: loadOrdersAndPositions_def Let_def split: sum.splits)
  have b: "orders (loadOrdersAndPositions positionsResponse (Inl reason) s) = orders s"
    by (simp add: loadOrdersAndPositions_def Let_def split: sum.splits)
  have c: "orders (loadOrdersAndPositions positionsResponse
                    (settled_getAccountOrders accountId (Inl reason)) s) = orders s"
    by (simp add: loadOrdersAndPositions_def settled_getAccountOrders_def getAccountOrders_def
          Let_def split: sum.splits)
  have d: "http_status e \<noteq> Some 503 \<longrightarrow> loadAccountSummary account (Inl e) s = s"
    using thrown_response_status_http [of e 503]
    by (auto simp: loadAccountSummary_def split: option.splits)
  show ?thesis
    using a b c d
    by (simp add: refreshCriticalStatus_def getCriticalStatus_rest_failure
          loadCriticalStatus_stores)
qed

text \<open>
  Witness for C6: the positions call, the orders call and the account-summary call are
  rejected with status 500, and the active-status GET of the critical-status refresh
  fails, on a state that holds a position, an order, a summary and a healthy status.
\<close>

theorem failed_refresh_keeps_or_placeholder_witness:
  "positions
     (loadOrdersAndPositions
        (Inl (Thrown \<lparr>err_message = ''Internal error'', err_status = Some 500, originalError = None\<rparr>))
        (Inr (Some []))
        (initial_dashboard
           \<lparr>accountSummary := Some [(''balance'', Num 50000)],
             positions := [[(''symbol'', Str ''MNQ''), (''quantity'', Num 2)]],
             orders := [[(''id'', Str ''A1''), (''status'', Str ''Working'')]],
             criticalStatus := Obj [(''status'', Str ''healthy'')]\<rparr>))
     = [[(''symbol'', Str ''MNQ''), (''quantity'', Num 2)]]
   \<and> orders
       (loadOrdersAndPositions
          (Inr (Some []))
          (Inl (Thrown \<lparr>err_message = ''Internal error'', err_status = Some 500, originalError = None\<rparr>))
          (initial_dashboard
             \<lparr>accountSummary := Some [(''balance'', Num 50000)],
               positions := [[(''symbol'', Str ''MNQ''), (''quantity'', Num 2)]],
               orders := [[(''id'', Str ''A1''), (''status'', Str ''Working'')]],
               criticalStatus := Obj [(''status'', Str ''healthy'')]\<rparr>))
     = [[(''id'', Str ''A1''), (''status'', Str ''Working'')]]
   \<and> accountSummary
       (loadAccountSummary (Some [(''id'', Num 7)])
          (Inl (Thrown \<lparr>err_message = ''Internal error'', err_status = Some 500, originalError = None\<rparr>))
          (initial_dashboard
             \<lparr>accountSummary := Some [(''balance'', Num 50000)],
               positions := [[(''symbol'', Str ''MNQ''), (''quantity'', Num 2)]],
               orders := [[(''id'', Str ''A1''), (''status'', Str ''Working'')]],
               criticalStatus := Obj [(''status'', Str ''healthy'')]\<rparr>))
     = Some [(''balance'', Num 50000)]
   \<and> criticalStatus
       (refreshCriticalStatus ''2025-01-01T00:00:00.000Z''
          (Inl (Thrown \<lparr>err_message = ''Internal error'', err_status = Some 500, originalError = None\<rparr>))
          (Inr [])
          (initial_dashboard
             \<lparr>accountSummary := Some [(''balance'', Num 50000)],
               positions := [[(''symbol'', Str ''MNQ''), (''quantity'', Num 2)]],
               orders := [[(''id'', Str ''A1''), (''status'', Str ''Working'')]],
               criticalStatus := Obj [(''status'', Str ''healthy'')]\<rparr>))
     = Obj (getCriticalStatus_failed ''2025-01-01T00:00:00.000Z'')"
proof -
  let ?e = "Thrown \<lparr>err_message = ''Internal error'', err_status = Some 500, originalError = None\<rparr>"
  let ?s = "initial_dashboard
              \<lparr>accountSummary := Some [(''balance'', Num 50000)],
                positions := [[(''symbol'', Str ''MNQ''), (''quantity'', Num 2)]],
                orders := [[(''id'', Str ''A1''), (''status'', Str ''Working'')]],
                criticalStatus := Obj [(''status'', Str ''healthy'')]\<rparr>"
  note inst =
    failed_refresh_keeps_or_placeholder
      [where reason = ?e and e = ?e and s = ?s
         and ordersResponse = "Inr (Some [])" and positionsResponse = "Inr (Some [])"
         and accountId = "Num 7" and account = "Some [(''id'', Num 7)]"
         and now = "''2025-01-01T00:00:00.000Z''" and servicesGot = "Inr []"
         and activeStatus = "Inr []"]
  have not_503: "http_status ?e \<noteq> Some 503"
    by (simp add: http_status_def)
  have p: "positions (loadOrdersAndPositions (Inl ?e) (Inr (Some [])) ?s)
             = [[(''symbol'', Str ''MNQ''), (''quantity'', Num 2)]]"
    using inst [THEN conjunct1] by simp
  have o: "orders (loadOrdersAndPositions (Inr (Some [])) (Inl ?e) ?s)
             = [[(''id'', Str ''A1''), (''status'', Str ''Working'')]]"
    using inst [THEN conjunct2, THEN conjunct1] by simp
  have "loadAccountSummary (Some [(''id'', Num 7)]) (Inl ?e) ?s = ?s"
    using inst [THEN conjunct2, THEN conjunct2, THEN conjunct2, THEN conjunct1] not_503
    by simp
  then have a: "accountSummary (loadAccountSummary (Some [(''id'', Num 7)]) (Inl ?e) ?s)
                  = Some [(''balance'', Num 50000)]"
    by simp
  have differs:
    "JSON_stringify (Obj (getCriticalStatus_failed ''2025-01-01T00:00:00.000Z''))
       \<noteq> JSON_stringify (Obj [(''status'', Str ''healthy'')])"
    by (simp add: getCriticalStatus_failed_def join_comma_def JSON_quote_def)
  have c: "criticalStatus
             (refreshCriticalStatus ''2025-01-01T00:00:00.000Z'' (Inl ?e) (Inr []) ?s)
             = Obj (getCriticalStatus_failed ''2025-01-01T00:00:00.000Z'')"
    using inst [THEN conjunct2, THEN conjunct2, THEN conjunct2, THEN conjunct2, THEN conjunct1]
      differs
    by simp
  from p o a c show ?thesis by simp
qed

text \<open>
  Counterexample to C6 as stated: the dashboard holds a healthy critical status with an
  open position; the active-status GET of a refresh times out. The stored status is
  replaced by the error status, which has no open positions.
\<close>

theorem critical_status_placeholder_replaces:
  "criticalStatus
     (refreshCriticalStatus ''2025-01-01T00:00:00.000Z''
        (Inl (Thrown \<lparr>err_message = ''timeout of 10000ms exceeded'', err_status = None,
                       originalError = None\<rparr>))
        (Inr [])
        (initial_dashboard
           \<lparr>criticalStatus :=
              Obj [(''status'', Str ''healthy''),
                   (''openPositions'', Arr [Obj [(''symbol'', Str ''MNQ''), (''quantity'', Num 2)]]),
                   (''openOrders'', Arr [])]\<rparr>))
     = Obj [(''status'', Str ''error''),
            (''issues'', Arr [Str ''Failed to load trading data'']),
            (''openPositions'', Arr []),
            (''openOrders'', Arr []),
            (''lastUpdate'', Str ''2025-01-01T00:00:00.000Z'')]
   \<and> criticalStatus
       (refreshCriticalStatus ''2025-01-01T00:00:00.000Z''
          (Inl (Thrown \<lparr>err_message = ''timeout of 10000ms exceeded'', err_status = None,
                         originalError = None\<rparr>))
          (Inr [])
          (initial_dashboard
             \<lparr>criticalStatus :=
                Obj [(''status'', Str ''healthy''),
                     (''openPositions'', Arr [Obj [(''symbol'', Str ''MNQ''), (''quantity'', Num 2)]]),
                     (''openOrders'', Arr [])]\<rparr>))
     \<noteq> criticalStatus
         (initial_dashboard
            \<lparr>criticalStatus :=
               Obj [(''status'', Str ''healthy''),
                    (''openPositions'', Arr [Obj [(''symbol'', Str ''MNQ''), (''quantity'', Num 2)]]),
                    (''openOrders'', Arr [])]\<rparr>)"
  by (simp add: refreshCriticalStatus_def getCriticalStatus_rest_failure
        loadCriticalStatus_stores getCriticalStatus_failed_def truthy_def
        join_comma_def JSON_quote_def)

subsection \<open>C7: the response interceptor\<close>

text \<open>
  C7. On a response with status 401 both interceptors remove the stored credential,
  reload the page (\<open>apiAuth.js\<close> through \<open>handleUnauthorized\<close>) and reject with the
  error "Authentication required". On every other failure they leave the browser as it
  is and reject with an error that carries the HTTP status (if any) and the original
  error, and whose message is the backend's error text when there is a non-empty one,
  else the transport message when that is non-empty, else "Network error".
\<close>

theorem backend_client_rejection:
  "(response_status e = Some 401 \<longrightarrow>
      localStorage (fst (api_onRejected e b)) ''dashboardToken'' = None
    \<and> reloads (fst (api_onRejected e b)) = Suc (reloads b)
    \<and> err_message (snd (api_onRejected e b)) = ''Authentication required''
    \<and> localStorage (fst (apiAuth_onRejected e b)) TOKEN_KEY = None
    \<and> fst (apiAuth_onRejected e b) = handleUnauthorized b
    \<and> err_message (snd (apiAuth_onRejected e b)) = ''Authentication required'')
 \<and> (response_status e \<noteq> Some 401 \<longrightarrow>
      apiAuth_onRejected e b = api_onRejected e b
    \<and> fst (api_onRejected e b) = b
    \<and> err_status (snd (api_onRejected e b)) = response_status e
    \<and> originalError (snd (api_onRejected e b)) = Some e
    \<and> (\<forall>t. response_data_error e = Some t \<and> t \<noteq> [] \<longrightarrow>
           err_message (snd (api_onRejected e b)) = t)
    \<and> ((response_data_error e = None \<or> response_data_error e = Some []) \<and> message e \<noteq> [] \<longrightarrow>
           err_message (snd (api_onRejected e b)) = message e)
    \<and> ((response_data_error e = None \<or> response_data_error e = Some []) \<and> message e = [] \<longrightarrow>
           err_message (snd (api_onRejected e b)) = ''Network error''))"
  by (auto simp: api_onRejected_def apiAuth_onRejected_def handleUnauthorized_def
        clearToken_def reload_def TOKEN_KEY_def new_Error_def errorMessage_def or_str_def)

text \<open>
  Witness for C7: a 401 and a 503 answer, each with an error text in its body, while a
  credential is stored.
\<close>

theorem backend_client_rejection_witness:
  "localStorage
     (fst (api_onRejected
        \<lparr>response = Some \<lparr>status = 401, data_error = Some ''Invalid token''\<rparr>,
         message = ''Request failed with status code 401''\<rparr>
        \<lparr>localStorage = [''dashboardToken'' \<mapsto> ''secret''], reloads = 0\<rparr>)) ''dashboardToken'' = None
   \<and> err_message
       (snd (api_onRejected
          \<lparr>response = Some \<lparr>status = 401, data_error = Some ''Invalid token''\<rparr>,
           message = ''Request failed with status code 401''\<rparr>
          \<lparr>localStorage = [''dashboardToken'' \<mapsto> ''secret''], reloads = 0\<rparr>)) = ''Authentication required''
   \<and> err_message
       (snd (api_onRejected
          \<lparr>response = Some \<lparr>status = 503, data_error = Some ''Cache warming up''\<rparr>,
           message = ''Request failed with status code 503''\<rparr>
          \<lparr>localStorage = [''dashboardToken'' \<mapsto> ''secret''], reloads = 0\<rparr>)) = ''Cache warming up''
   \<and> err_status
       (snd (api_onRejected
          \<lparr>response = Some \<lparr>status = 503, data_error = Some ''Cache warming up''\<rparr>,
           message = ''Request failed with status code 503''\<rparr>
          \<lparr>localStorage = [''dashboardToken'' \<mapsto> ''secret''], reloads = 0\<rparr>)) = Some 503"
  using backend_client_rejection
          [of "\<lparr>response = Some \<lparr>status = 401, data_error = Some ''Invalid token''\<rparr>,
                message = ''Request failed with status code 401''\<rparr>"
              "\<lparr>localStorage = [''dashboardToken'' \<mapsto> ''secret''], reloads = 0\<rparr>"]
        backend_client_rejection
          [of "\<lparr>response = Some \<lparr>status = 503, data_error = Some ''Cache warming up''\<rparr>,
                message = ''Request failed with status code 503''\<rparr>"
              "\<lparr>localStorage = [''dashboardToken'' \<mapsto> ''secret''], reloads = 0\<rparr>"]
  by (simp add: response_status_def response_data_error_def)

subsection \<open>C8: an identical critical status\<close>

text \<open>
  C8. A critical-status update whose serialization (\<open>JSON.stringify\<close>) is the one of
  the stored value changes nothing, whether it arrives by push event or as the response
  of a REST refresh: the dashboard state afterwards is the state before, with the same
  stored value and the same count of state-change notifications.
\<close>

theorem identical_critical_status_is_noop:
  "(JSON_stringify data = JSON_stringify (criticalStatus s) \<longrightarrow>
      handleCriticalStatusUpdate data s = s)
   \<and> (JSON_stringify (Obj resp) = JSON_stringify (criticalStatus s) \<longrightarrow>
      loadCriticalStatus (Inr resp) s = s)"
  using stringify_object_truthy [of resp "criticalStatus s"]
  by (auto simp: handleCriticalStatusUpdate_def loadCriticalStatus_def setCriticalStatus_def
        Let_def)

text \<open>
  Witness for C8: a healthy status is stored after one notification. The push event
  carries the same status with one more property that is \<open>undefined\<close>, which the
  serialization leaves out; the REST response is the same object.
\<close>

theorem identical_critical_status_is_noop_witness:
  "handleCriticalStatusUpdate
     (Obj [(''status'', Str ''healthy''), (''openOrders'', Arr []), (''stats'', Undefined)])
     (initial_dashboard
        \<lparr>criticalStatus := Obj [(''status'', Str ''healthy''), (''openOrders'', Arr [])],
          criticalStatusChanges := 1\<rparr>)
     = initial_dashboard
        \<lparr>criticalStatus := Obj [(''status'', Str ''healthy''), (''openOrders'', Arr [])],
          criticalStatusChanges := 1\<rparr>
   \<and> loadCriticalStatus
       (Inr [(''status'', Str ''healthy''), (''openOrders'', Arr [])])
       (initial_dashboard
          \<lparr>criticalStatus := Obj [(''status'', Str ''healthy''), (''openOrders'', Arr [])],
            criticalStatusChanges := 1\<rparr>)
     = initial_dashboard
        \<lparr>criticalStatus := Obj [(''status'', Str ''healthy''), (''openOrders'', Arr [])],
          criticalStatusChanges := 1\<rparr>"
  using identical_critical_status_is_noop
          [of "Obj [(''status'', Str ''healthy''), (''openOrders'', Arr []), (''stats'', Undefined)]"
              "initial_dashboard
                 \<lparr>criticalStatus := Obj [(''status'', Str ''healthy''), (''openOrders'', Arr [])],
                   criticalStatusChanges := 1\<rparr>"
              "[(''status'', Str ''healthy''), (''openOrders'', Arr [])]"]
  by (simp add: join_comma_def)

subsection \<open>C9: the kill switch echoes the request\<close>

text \<open>
  C9. Whenever \<open>setKillSwitch(enabled)\<close> resolves, the \<open>tradingEnabled\<close> of its result
  is the argument \<open>enabled\<close>, whatever the backend's response holds, and the resumed
  toggle command sets the dashboard's trading-enabled flag to that requested state.
\<close>

theorem setKillSwitch_echo:
  "setKillSwitch requested posted = Inr r \<Longrightarrow>
     ks_tradingEnabled r = requested
   \<and> tradingEnabled
       (handleKillSwitchToggle_resume now requested (setKillSwitch requested posted) s) = requested"
  by (auto simp: setKillSwitch_def handleKillSwitchToggle_resume_def
        split: sum.splits)

text \<open>
  Witness for C9: enabling is requested and the backend's response says
  \<open>status: 'disabled', enabled: false\<close>; the flag is set to \<open>true\<close>.
\<close>

theorem setKillSwitch_echo_witness:
  "setKillSwitch True (Inr (Obj [(''status'', Str ''disabled''), (''enabled'', Bool False)]))
     = Inr \<lparr>ks_tradingEnabled = True, ks_status = Str ''disabled'', ks_message = Str ''disabled''\<rparr>
   \<and> tradingEnabled
       (handleKillSwitchToggle_resume ''2025-01-01T00:00:00.000Z'' True
          (setKillSwitch True
             (Inr (Obj [(''status'', Str ''disabled''), (''enabled'', Bool False)])))
          initial_dashboard) = True"
proof -
  have resolved:
    "setKillSwitch True (Inr (Obj [(''status'', Str ''disabled''), (''enabled'', Bool False)]))
       = Inr \<lparr>ks_tradingEnabled = True, ks_status = Str ''disabled'',
              ks_message = Str ''disabled''\<rparr>"
    by (simp add: setKillSwitch_resolves js_get_def)
  have "tradingEnabled
          (handleKillSwitchToggle_resume ''2025-01-01T00:00:00.000Z'' True
             (setKillSwitch True
                (Inr (Obj [(''status'', Str ''disabled''), (''enabled'', Bool False)])))
             initial_dashboard) = True"
    using setKillSwitch_echo [OF resolved, of "''2025-01-01T00:00:00.000Z''" initial_dashboard]
    by simp
  with resolved show ?thesis by simp
qed

subsection \<open>C10: a margin update resets the activity log\<close>

text \<open>
  C10, as the code has it. After a successful margin-settings update (the settings passed
  are neither \<open>undefined\<close> nor \<open>null\<close>, so the command does not throw) the activity
  log is exactly the one new margin-settings entry, whatever it held before and whatever
  state the command resumes on. The position-sizing update and the kill-switch toggle
  differ: on a log within the cap they keep every prior entry, in place, at the front of
  the log.
\<close>

theorem margin_update_resets_log:
  "(newMarginSettings \<noteq> Undefined \<and> newMarginSettings \<noteq> Null \<longrightarrow>
      relayLogs (handleMarginUpdate now newMarginSettings s)
        = [log_entry (Str now) ''margin_settings''
             (emoji_money_bag @ '' Margin requirements updated'')]
    \<and> relayLogs (handleMarginUpdate_resume now (setMarginSettings newMarginSettings) s)
        = [log_entry (Str now) ''margin_settings''
             (emoji_money_bag @ '' Margin requirements updated'')])
   \<and> (length (relayLogs s) \<le> 100 \<longrightarrow>
        take (length (relayLogs s))
          (relayLogs (handlePositionSizingUpdate_resume now newSettings (Inr (Obj resp)) s))
          = relayLogs s
      \<and> take (length (relayLogs s))
          (relayLogs (handleKillSwitchToggle_resume now newState (Inr r) s))
          = relayLogs s)"
  by (cases newMarginSettings)
     (simp_all add: handleMarginUpdate_def handleMarginUpdate_resume_def
        handleMarginUpdate_begin_def setMarginSettings_def member_def
        handlePositionSizingUpdate_resume_def handleKillSwitchToggle_resume_def)

text \<open>
  Witness for C10: a log of two entries; the margin update leaves one entry, the
  position-sizing update keeps the two.
\<close>

theorem margin_update_resets_log_witness:
  "relayLogs
     (handleMarginUpdate ''2025-01-01T00:00:00.000Z''
        (Obj [(''marginSettings'', Obj [(''MNQ'', Num 2000)])])
        (initial_dashboard
           \<lparr>relayLogs := [log_entry (Str ''2024-12-31T00:00:00.000Z'') ''system'' ''old'',
                           log_entry (Str ''2024-12-31T00:00:01.000Z'') ''system'' ''older'']\<rparr>))
     = [log_entry (Str ''2025-01-01T00:00:00.000Z'') ''margin_settings''
          (emoji_money_bag @ '' Margin requirements updated'')]
   \<and> take 2
       (relayLogs
          (handlePositionSizingUpdate_resume ''2025-01-01T00:00:00.000Z''
             [(''method'', Str ''fixed'')] (Inr (Obj [(''settings'', Obj [(''method'', Str ''fixed'')])]))
             (initial_dashboard
                \<lparr>relayLogs := [log_entry (Str ''2024-12-31T00:00:00.000Z'') ''system'' ''old'',
                                log_entry (Str ''2024-12-31T00:00:01.000Z'') ''system'' ''older'']\<rparr>)))
     = [log_entry (Str ''2024-12-31T00:00:00.000Z'') ''system'' ''old'',
        log_entry (Str ''2024-12-31T00:00:01.000Z'') ''system'' ''older'']"
  using margin_update_resets_log
          [of "Obj [(''marginSettings'', Obj [(''MNQ'', Num 2000)])]"
              "''2025-01-01T00:00:00.000Z''"
              "initial_dashboard
                 \<lparr>relayLogs := [log_entry (Str ''2024-12-31T00:00:00.000Z'') ''system'' ''old'',
                                 log_entry (Str ''2024-12-31T00:00:01.000Z'') ''system'' ''older'']\<rparr>"
              "[(''method'', Str ''fixed'')]"
              "[(''settings'', Obj [(''method'', Str ''fixed'')])]"
              True
              "\<lparr>ks_tradingEnabled = True, ks_status = Undefined, ks_message = Undefined\<rparr>"]
  by (simp add: numeral_2_eq_2)

text \<open>
  Counterexample to C10 as stated: the margin update is not the only operation that
  discards the prior entries. The push event \<open>filtered_activity\<close> also replaces the
  whole log by the entries it carries.
\<close>

theorem filtered_activity_replaces_log:
  "relayLogs
     (handleFilteredActivity
        [[(''timestamp'', Str ''2025-01-01T00:00:00.000Z''), (''type'', Str ''webhook''),
          (''message'', Str ''BUY 1 MNQ'')]]
        (initial_dashboard
           \<lparr>relayLogs := [log_entry (Str ''2024-12-31T00:00:00.000Z'') ''system'' ''old'',
                           log_entry (Str ''2024-12-31T00:00:01.000Z'') ''system'' ''older'']\<rparr>))
     = [[(''timestamp'', Str ''2025-01-01T00:00:00.000Z''), (''type'', Str ''webhook''),
         (''data'', Str ''BUY 1 MNQ'')]]"
  by (simp add: handleFilteredActivity_def formattedLogs_def js_get_def js_or_def truthy_def)

end
